theory Spec2Isabelle
  imports Complex_Main "HOL-Library.Multiset" "HOL-Library.Product_Lexorder" "HOL-Library.List_Lexorder"
begin

section \<open>The data store adapter of server/storage-supabase.ts\<close>

text \<open>
  The class \<open>SupabaseStorage\<close> issues one statement of the relational query builder per
  method.  The store is modelled as a record of tables, each table a list of rows in the
  store's own (unspecified) scan order; every method takes the store last and returns the
  store it leaves behind next to its result.  A statement the store refuses is a value of
  type \<open>error\<close>.
\<close>

subsection \<open>Values of the host language\<close>

text \<open>A point in time, in milliseconds since the epoch (the time value of a \<open>Date\<close>).\<close>

type_synonym timestamp = int

text \<open>
  A property of a payload object whose column admits null: left out of the object (or
  \<open>undefined\<close>), explicitly \<open>null\<close>, or a value.
\<close>

datatype 'a field = Unset | Null | Val 'a

text \<open>
  What a caller may hand over for a date: a \<open>Date\<close> object (\<open>None\<close> is the invalid
  date), a string, or a number of milliseconds.
\<close>

datatype date_input = JDate "timestamp option" | JString string | JNumber int

text \<open>
  The parts of the runtime the methods call: \<open>Date.parse\<close> on a string (\<open>None\<close> for
  NaN), \<open>getFullYear\<close> (the year in the local time zone) and
  \<open>toLocaleString('default', {month: 'long'})\<close> (the long month name in the default
  locale and the local time zone).  They depend on the time zone and locale of the process
  and are parameters of the model.
\<close>

record runtime =
  Date_parse :: "string \<Rightarrow> timestamp option"
  getFullYear :: "timestamp \<Rightarrow> int"
  toLocaleMonth :: "timestamp \<Rightarrow> string"

text \<open>\<open>new Date(x)\<close>: the result is a \<open>Date\<close>, possibly the invalid one.\<close>

definition new_Date :: "runtime \<Rightarrow> date_input \<Rightarrow> timestamp option" where
  "new_Date rt x =
     (case x of
        JDate d \<Rightarrow> d
      | JString str \<Rightarrow> Date_parse rt str
      | JNumber n \<Rightarrow> (if \<bar>n\<bar> \<le> 8640000000000000 then Some n else None))"

text \<open>
  The truth value of a date input in a condition: an object is truthy, a string unless it
  is empty, a number unless it is zero.
\<close>

definition truthy :: "date_input \<Rightarrow> bool" where
  "truthy x = (case x of JDate d \<Rightarrow> True | JString str \<Rightarrow> str \<noteq> [] | JNumber n \<Rightarrow> n \<noteq> 0)"

text \<open>\<open>result[0]\<close>: reading past the end of an array gives \<open>undefined\<close>.\<close>

definition index0 :: "'a list \<Rightarrow> 'a option" where
  "index0 result = (case result of [] \<Rightarrow> None | r # rest \<Rightarrow> Some r)"

subsection \<open>Rows and tables\<close>

text \<open>
  Modelled from the spec: the table declarations of \<open>@shared/schema\<close> are not part of the
  sources at hand.  The rows carry the columns the methods name and the attributes the
  data model of the specification lists; the constraints and column defaults of the
  declarations are parameters (\<open>schema\<close> below).
\<close>

record user =
  user_id :: int
  email :: string

record campus =
  campus_id :: int
  name :: string

record event =
  event_id :: int
  campusId :: int
  programType :: string
  dateTime :: timestamp
  endDateTime :: "timestamp option"
  participantCount :: "int option"
  rating :: "rat option"

record chatSession =
  chat_id :: int
  userId :: int
  createdAt :: timestamp

record db =
  users :: "user list"
  campuses :: "campus list"
  events :: "event list"
  chatSessions :: "chatSession list"
  next_campus_id :: int
  next_event_id :: int

datatype error = InvalidDate | NoValuesToSet | ConstraintViolation

text \<open>
  What the table declarations fix: which states the store accepts after a write (keys,
  uniqueness, references, not-null) and the default of each column an insert may leave
  out.
\<close>

record schema =
  constraints :: "db \<Rightarrow> bool"
  default_endDateTime :: "timestamp option"
  default_participantCount :: "int option"
  default_rating :: "rat option"

subsection \<open>The query builder\<close>

text \<open>
  \<open>db.select().from(t).where(p).orderBy(o).limit(n)\<close>: the rows of the table that
  satisfy the condition, ordered, cut to the limit.  A select leaves the store as it is.
\<close>

definition select_from ::
  "(db \<Rightarrow> 'r list) \<Rightarrow> ('r \<Rightarrow> bool) \<Rightarrow> ('r list \<Rightarrow> 'r list) \<Rightarrow> nat option \<Rightarrow> db \<Rightarrow> 'r list \<times> db"
where
  "select_from tbl cond orderBy limit s =
     (let rows = orderBy (filter cond (tbl s))
      in (case limit of None \<Rightarrow> rows | Some n \<Rightarrow> take n rows, s))"

definition unordered :: "'r list \<Rightarrow> 'r list" where
  "unordered rows = rows"

definition asc :: "('r \<Rightarrow> 'k::linorder) \<Rightarrow> 'r list \<Rightarrow> 'r list" where
  "asc col rows = sort_key col rows"

definition desc :: "('r \<Rightarrow> 'k::linorder) \<Rightarrow> 'r list \<Rightarrow> 'r list" where
  "desc col rows = rev (sort_key col rows)"

text \<open>The store orders a null above every value.\<close>

definition nullable :: "'k::zero option \<Rightarrow> bool \<times> 'k" where
  "nullable v = (case v of None \<Rightarrow> (True, 0) | Some k \<Rightarrow> (False, k))"

subsection \<open>User operations\<close>

definition getUser :: "int \<Rightarrow> db \<Rightarrow> user option \<times> db" where
  "getUser i s =
     (let (result, s') = select_from users (\<lambda>u. user_id u = i) unordered (Some 1) s
      in (index0 result, s'))"

definition getUserByEmail :: "string \<Rightarrow> db \<Rightarrow> user option \<times> db" where
  "getUserByEmail em s =
     (let (result, s') = select_from users (\<lambda>u. email u = em) unordered (Some 1) s
      in (index0 result, s'))"

subsection \<open>Campus operations\<close>

definition getCampus :: "int \<Rightarrow> db \<Rightarrow> campus option \<times> db" where
  "getCampus i s =
     (let (result, s') = select_from campuses (\<lambda>c. campus_id c = i) unordered (Some 1) s
      in (index0 result, s'))"

text \<open>
  The order of two names is the store's collation, given as a sort key \<open>collate\<close> into
  a linear order.
\<close>

definition getAllCampuses :: "(string \<Rightarrow> 'k::linorder) \<Rightarrow> db \<Rightarrow> campus list \<times> db" where
  "getAllCampuses collate s =
     select_from campuses (\<lambda>c. True) (asc (\<lambda>c. collate (name c))) None s"

record InsertCampus =
  ins_name :: string

text \<open>
  \<open>db.insert(campuses).values(campusData).returning()\<close>: the new row takes the next
  key; the store refuses the row when the state with it breaks a constraint.
\<close>

definition insert_campuses :: "schema \<Rightarrow> InsertCampus \<Rightarrow> db \<Rightarrow> error + campus list \<times> db" where
  "insert_campuses sch vals s =
     (let row = \<lparr>campus_id = next_campus_id s, name = ins_name vals\<rparr>;
          s' = s\<lparr>campuses := campuses s @ [row], next_campus_id := next_campus_id s + 1\<rparr>
      in if constraints sch s' then Inr ([row], s') else Inl ConstraintViolation)"

definition createCampus :: "schema \<Rightarrow> InsertCampus \<Rightarrow> db \<Rightarrow> error + campus option \<times> db" where
  "createCampus sch campusData s =
     (case insert_campuses sch campusData s of
        Inl err \<Rightarrow> Inl err
      | Inr (result, s') \<Rightarrow> Inr (index0 result, s'))"

subsection \<open>Event operations\<close>

definition getEvent :: "int \<Rightarrow> db \<Rightarrow> event option \<times> db" where
  "getEvent i s =
     (let (result, s') = select_from events (\<lambda>e. event_id e = i) unordered (Some 1) s
      in (index0 result, s'))"

definition getEventsByCampus :: "int \<Rightarrow> db \<Rightarrow> event list \<times> db" where
  "getEventsByCampus cid s =
     select_from events (\<lambda>e. campusId e = cid) (desc dateTime) None s"

definition getEventsInDateRange :: "int \<Rightarrow> timestamp \<Rightarrow> timestamp \<Rightarrow> db \<Rightarrow> event list \<times> db" where
  "getEventsInDateRange cid startDate endDate s =
     select_from events
       (\<lambda>e. campusId e = cid \<and> dateTime e \<ge> startDate \<and> dateTime e \<le> endDate)
       (asc dateTime) None s"

text \<open>
  \<open>InsertEvent\<close>: the payload of an insert.  The columns that admit null may be left out
  or null; the others are required.
\<close>

record InsertEvent =
  ins_campusId :: int
  ins_programType :: string
  ins_dateTime :: date_input
  ins_endDateTime :: "date_input field"
  ins_participantCount :: "int field"
  ins_rating :: "rat field"

text \<open>
  The object handed to \<open>values\<close>: the payload with \<open>dateTime\<close> and \<open>endDateTime\<close>
  replaced by \<open>Date\<close> objects (or null).
\<close>

record EventValues =
  val_campusId :: int
  val_programType :: string
  val_dateTime :: "timestamp option"
  val_endDateTime :: "timestamp option field"
  val_participantCount :: "int field"
  val_rating :: "rat field"

text \<open>
  The value a column that admits null takes on insert: its default when the property is
  left out, null when it is null, the value otherwise.
\<close>

definition column_value :: "'a option \<Rightarrow> 'a field \<Rightarrow> 'a option" where
  "column_value dflt f = (case f of Unset \<Rightarrow> dflt | Null \<Rightarrow> None | Val v \<Rightarrow> Some v)"

text \<open>Writing a \<open>Date\<close> to the store: the invalid date cannot be written.\<close>

definition date_column :: "timestamp option field \<Rightarrow> error + timestamp field" where
  "date_column f =
     (case f of
        Unset \<Rightarrow> Inr Unset
      | Null \<Rightarrow> Inr Null
      | Val None \<Rightarrow> Inl InvalidDate
      | Val (Some t) \<Rightarrow> Inr (Val t))"

text \<open>The same for \<open>dateTime\<close> in an update, which is a \<open>Date\<close> or \<open>undefined\<close>.\<close>

definition date_required :: "timestamp option option \<Rightarrow> error + timestamp option" where
  "date_required f =
     (case f of
        None \<Rightarrow> Inr None
      | Some None \<Rightarrow> Inl InvalidDate
      | Some (Some t) \<Rightarrow> Inr (Some t))"

text \<open>\<open>db.insert(events).values(processedData).returning()\<close>.\<close>

definition insert_events :: "schema \<Rightarrow> EventValues \<Rightarrow> db \<Rightarrow> error + event list \<times> db" where
  "insert_events sch vals s =
     (case val_dateTime vals of
        None \<Rightarrow> Inl InvalidDate
      | Some t \<Rightarrow>
          (case date_column (val_endDateTime vals) of
             Inl err \<Rightarrow> Inl err
           | Inr endf \<Rightarrow>
               (let row = \<lparr>event_id = next_event_id s,
                           campusId = val_campusId vals,
                           programType = val_programType vals,
                           dateTime = t,
                           endDateTime = column_value (default_endDateTime sch) endf,
                           participantCount =
                             column_value (default_participantCount sch) (val_participantCount vals),
                           rating = column_value (default_rating sch) (val_rating vals)\<rparr>;
                    s' = s\<lparr>events := events s @ [row], next_event_id := next_event_id s + 1\<rparr>
                in if constraints sch s' then Inr ([row], s') else Inl ConstraintViolation)))"

text \<open>
  \<^verbatim>\<open>
  async createEvent(eventData: InsertEvent): Promise<Event> {
    const processedData = {
      ...eventData,
      dateTime: new Date(eventData.dateTime),
      endDateTime: eventData.endDateTime ? new Date(eventData.endDateTime) : null,
    };
    const result = await db.insert(events).values(processedData).returning();
    return result[0];
  }
  \<close>
  A property left out of \<open>eventData\<close> and a null one are both falsy.
\<close>

definition createEvent :: "runtime \<Rightarrow> schema \<Rightarrow> InsertEvent \<Rightarrow> db \<Rightarrow> error + event option \<times> db" where
  "createEvent rt sch eventData s =
     (let processedData =
            \<lparr>val_campusId = ins_campusId eventData,
             val_programType = ins_programType eventData,
             val_dateTime = new_Date rt (ins_dateTime eventData),
             val_endDateTime =
               (case ins_endDateTime eventData of
                  Val x \<Rightarrow> (if truthy x then Val (new_Date rt x) else Null)
                | Null \<Rightarrow> Null
                | Unset \<Rightarrow> Null),
             val_participantCount = ins_participantCount eventData,
             val_rating = ins_rating eventData\<rparr>
      in case insert_events sch processedData s of
           Inl err \<Rightarrow> Inl err
         | Inr (result, s') \<Rightarrow> Inr (index0 result, s'))"


text \<open>
  The object handed to \<open>set\<close>: \<open>dateTime\<close> and \<open>endDateTime\<close> are \<open>Date\<close> objects or
  \<open>undefined\<close>.
\<close>

record EventSet =
  set_campusId :: "int option"
  set_programType :: "string option"
  set_dateTime :: "timestamp option option"
  set_endDateTime :: "timestamp option field"
  set_participantCount :: "int field"
  set_rating :: "rat field"

text \<open>
  \<open>set\<close> skips the properties that are \<open>undefined\<close> and writes the others; a null is
  written as null.
\<close>

definition assign :: "'a option \<Rightarrow> 'a \<Rightarrow> 'a" where
  "assign v old = (case v of None \<Rightarrow> old | Some new \<Rightarrow> new)"

definition assign_nullable :: "'a field \<Rightarrow> 'a option \<Rightarrow> 'a option" where
  "assign_nullable f old = (case f of Unset \<Rightarrow> old | Null \<Rightarrow> None | Val v \<Rightarrow> Some v)"

definition no_values :: "EventSet \<Rightarrow> bool" where
  "no_values st \<longleftrightarrow>
     set_campusId st = None \<and> set_programType st = None \<and> set_dateTime st = None \<and>
     set_endDateTime st = Unset \<and> set_participantCount st = Unset \<and> set_rating st = Unset"

text \<open>
  \<open>db.update(events).set(processedUpdates).where(eq(events.id, id)).returning()\<close>.
  An update with nothing to set is refused, and so is one that writes the invalid date;
  the store then rewrites the rows that match, unless the state they give breaks a
  constraint.
\<close>

definition update_events :: "schema \<Rightarrow> EventSet \<Rightarrow> int \<Rightarrow> db \<Rightarrow> error + event list \<times> db" where
  "update_events sch st i s =
     (if no_values st then Inl NoValuesToSet
      else
        (case date_required (set_dateTime st) of
           Inl err \<Rightarrow> Inl err
         | Inr startf \<Rightarrow>
         (case date_column (set_endDateTime st) of
           Inl err \<Rightarrow> Inl err
         | Inr endf \<Rightarrow>
             (let write = (\<lambda>e. e\<lparr>campusId := assign (set_campusId st) (campusId e),
                                  programType := assign (set_programType st) (programType e),
                                  dateTime := assign startf (dateTime e),
                                  endDateTime := assign_nullable endf (endDateTime e),
                                  participantCount :=
                                    assign_nullable (set_participantCount st) (participantCount e),
                                  rating := assign_nullable (set_rating st) (rating e)\<rparr>);
                  s' = s\<lparr>events := map (\<lambda>e. if event_id e = i then write e else e) (events s)\<rparr>;
                  returning = map write (filter (\<lambda>e. event_id e = i) (events s))
              in if returning = [] then Inr ([], s)
                 else if constraints sch s' then Inr (returning, s')
                 else Inl ConstraintViolation))))"


text \<open>
  \<open>db.delete(events).where(eq(events.id, id)).returning()\<close>: the rows that match leave
  the table and are returned.  No table refers to an event, so a delete breaks no
  constraint.
\<close>

definition delete_events :: "int \<Rightarrow> db \<Rightarrow> event list \<times> db" where
  "delete_events i s =
     (filter (\<lambda>e. event_id e = i) (events s),
      s\<lparr>events := filter (\<lambda>e. event_id e \<noteq> i) (events s)\<rparr>)"

definition deleteEvent :: "int \<Rightarrow> db \<Rightarrow> bool \<times> db" where
  "deleteEvent i s = (let (result, s') = delete_events i s in (length result > 0, s'))"

subsection \<open>Chat operations\<close>

definition getChatHistory :: "int \<Rightarrow> nat option \<Rightarrow> db \<Rightarrow> chatSession list \<times> db" where
  "getChatHistory uid limit_arg s =
     (let limit = (case limit_arg of None \<Rightarrow> 10 | Some n \<Rightarrow> n)
      in select_from chatSessions (\<lambda>c. userId c = uid) (desc createdAt) (Some limit) s)"

subsection \<open>Analytics\<close>

text \<open>
  \<open>groupBy(events.programType)\<close> with \<open>count()\<close>: one row per type among the rows,
  with the number of rows of that type.
\<close>

definition group_count :: "('r \<Rightarrow> 'g) \<Rightarrow> 'r list \<Rightarrow> ('g \<times> nat) list" where
  "group_count col rows =
     map (\<lambda>g. (g, length (filter (\<lambda>r. col r = g) rows))) (remdups (map col rows))"

definition getEventTypeDistribution :: "int \<Rightarrow> db \<Rightarrow> (string \<times> nat) list \<times> db" where
  "getEventTypeDistribution cid s =
     (let (rows, s') = select_from events (\<lambda>e. campusId e = cid) unordered None s;
          result = group_count programType rows
      in (map (\<lambda>(type, count). (type, count)) result, s'))"

text \<open>
  An object with string keys and number values, as the list of its entries in insertion
  order: reading a key, and assigning to one (an existing key keeps its place, a new one
  goes last).
\<close>

fun obj_get :: "(string \<times> int) list \<Rightarrow> string \<Rightarrow> int option" where
  "obj_get [] k = None"
| "obj_get ((k', v) # kvs) k = (if k' = k then Some v else obj_get kvs k)"

fun obj_set :: "(string \<times> int) list \<Rightarrow> string \<Rightarrow> int \<Rightarrow> (string \<times> int) list" where
  "obj_set [] k v = [(k, v)]"
| "obj_set ((k', v') # kvs) k v =
     (if k' = k then (k', v) # kvs else (k', v') # obj_set kvs k v)"

text \<open>\<open>x || 0\<close> on a number that may be missing.\<close>

definition or_zero :: "int option \<Rightarrow> int" where
  "or_zero x = (case x of None \<Rightarrow> 0 | Some n \<Rightarrow> (if n = 0 then 0 else n))"

text \<open>
  The row of the select is a pair of the two columns asked for.  A date read from the
  store is a valid \<open>Date\<close>, and \<open>new Date\<close> copies it.
\<close>

definition year_of :: "runtime \<Rightarrow> timestamp \<Rightarrow> int option" where
  "year_of rt t = map_option (getFullYear rt) (new_Date rt (JDate (Some t)))"

definition month_of :: "runtime \<Rightarrow> timestamp \<Rightarrow> string" where
  "month_of rt t =
     (case new_Date rt (JDate (Some t)) of
        None \<Rightarrow> ''Invalid Date''
      | Some d \<Rightarrow> toLocaleMonth rt d)"

definition add_month :: "runtime \<Rightarrow> (string \<times> int) list \<Rightarrow> timestamp \<times> int option \<Rightarrow> (string \<times> int) list" where
  "add_month rt acc ev =
     (let month = month_of rt (fst ev)
      in obj_set acc month (or_zero (obj_get acc month) + or_zero (snd ev)))"

text \<open>
  \<^verbatim>\<open>
  const monthlyData = dbEvents
    .filter((event) => new Date(event.dateTime).getFullYear() === year)
    .reduce((acc: Record<string, number>, event) => {
      const month = new Date(event.dateTime).toLocaleString('default', { month: 'long' });
      acc[month] = (acc[month] || 0) + (event.participantCount || 0);
      return acc;
    }, {} as Record<string, number>);
  return Object.entries(monthlyData).map(([month, participants]) => ({ month, participants }));
  \<close>
\<close>

definition getMonthlyParticipation :: "runtime \<Rightarrow> int \<Rightarrow> int \<Rightarrow> db \<Rightarrow> (string \<times> int) list \<times> db" where
  "getMonthlyParticipation rt cid year s =
     (let (rows, s') = select_from events (\<lambda>e. campusId e = cid) unordered None s;
          dbEvents = map (\<lambda>e. (dateTime e, participantCount e)) rows;
          monthlyData =
            foldl (add_month rt) [] (filter (\<lambda>ev. year_of rt (fst ev) = Some year) dbEvents)
      in (map (\<lambda>(month, participants). (month, participants)) monthlyData, s'))"

definition getTopRatedEvents :: "int \<Rightarrow> nat option \<Rightarrow> db \<Rightarrow> event list \<times> db" where
  "getTopRatedEvents cid limit_arg s =
     (let limit = (case limit_arg of None \<Rightarrow> 5 | Some n \<Rightarrow> n)
      in select_from events (\<lambda>e. campusId e = cid) (desc (\<lambda>e. nullable (rating e))) (Some limit) s)"

section \<open>A runtime, a schema and a store to compute with\<close>

text \<open>
  A runtime in the UTC time zone with English month names.  The year and month of a time
  value come from the day number by the usual civil calendar computation; \<open>Date.parse\<close>
  knows the strings the examples use and the empty string, which it rejects.
\<close>

definition civil_from_days :: "int \<Rightarrow> int \<times> int" where
  "civil_from_days days =
     (let z = days + 719468;
          era = z div 146097;
          doe = z - era * 146097;
          yoe = (doe - doe div 1460 + doe div 36524 - doe div 146096) div 365;
          doy = doe - (365 * yoe + yoe div 4 - yoe div 100);
          mp = (5 * doy + 2) div 153;
          m = (if mp < 10 then mp + 3 else mp - 9)
      in (if m \<le> 2 then yoe + era * 400 + 1 else yoe + era * 400, m))"

definition month_names :: "string list" where
  "month_names = [''January'', ''February'', ''March'', ''April'', ''May'', ''June'', ''July'',
     ''August'', ''September'', ''October'', ''November'', ''December'']"

definition utc_english :: runtime where
  "utc_english =
     \<lparr>Date_parse = map_of
        [(''2024-03-10T09:00:00.000Z'', 1710061200000),
         (''2024-03-10T17:00:00.000Z'', 1710090000000),
         (''2024-04-02T08:30:00.000Z'', 1712046600000)],
      getFullYear = (\<lambda>t. fst (civil_from_days (t div 86400000))),
      toLocaleMonth = (\<lambda>t. month_names ! nat (snd (civil_from_days (t div 86400000)) - 1))\<rparr>"

text \<open>The collation that compares names byte by byte.\<close>

definition byte_order :: "string \<Rightarrow> nat list" where
  "byte_order str = map of_char str"

text \<open>
  A schema with unique keys, every event on a campus of the store, and a participant
  count of zero where an insert leaves it out.
\<close>

definition keyed_schema :: schema where
  "keyed_schema =
     \<lparr>constraints = (\<lambda>s. distinct (map campus_id (campuses s)) \<and>
                         distinct (map event_id (events s)) \<and>
                         list_all (\<lambda>e. campusId e \<in> set (map campus_id (campuses s))) (events s)),
      default_endDateTime = None,
      default_participantCount = Some 0,
      default_rating = None\<rparr>"

text \<open>
  Campus 1 has three events on 10 March 2024, at 09:00, 12:00 and 15:00 UTC; campus 2 has
  one on 31 December 2023.  User 1 has five chat sessions, user 2 one.
\<close>

definition morning :: event where
  "morning = \<lparr>event_id = 1, campusId = 1, programType = ''workshop'',
     dateTime = 1710061200000, endDateTime = Some 1710064800000,
     participantCount = Some 10, rating = Some 4\<rparr>"

definition noon :: event where
  "noon = \<lparr>event_id = 2, campusId = 1, programType = ''seminar'',
     dateTime = 1710072000000, endDateTime = None,
     participantCount = Some 5, rating = None\<rparr>"

definition afternoon :: event where
  "afternoon = \<lparr>event_id = 3, campusId = 1, programType = ''workshop'',
     dateTime = 1710082800000, endDateTime = None,
     participantCount = None, rating = Some 5\<rparr>"

definition new_years_eve :: event where
  "new_years_eve = \<lparr>event_id = 4, campusId = 2, programType = ''social'',
     dateTime = 1704049200000, endDateTime = None,
     participantCount = Some 40, rating = Some 3\<rparr>"

definition chat :: "int \<Rightarrow> int \<Rightarrow> timestamp \<Rightarrow> chatSession" where
  "chat i u t = \<lparr>chat_id = i, userId = u, createdAt = t\<rparr>"

definition store0 :: db where
  "store0 =
     \<lparr>users = [\<lparr>user_id = 1, email = ''ada@example.org''\<rparr>,
               \<lparr>user_id = 2, email = ''bo@example.org''\<rparr>],
      campuses = [\<lparr>campus_id = 1, name = ''North''\<rparr>, \<lparr>campus_id = 2, name = ''East''\<rparr>],
      events = [noon, new_years_eve, afternoon, morning],
      chatSessions = [chat 1 1 300, chat 2 2 350, chat 3 1 100, chat 4 1 500, chat 5 1 200,
                      chat 6 1 400],
      next_campus_id = 3,
      next_event_id = 5\<rparr>"


definition evening_talk :: InsertEvent where
  "evening_talk =
     \<lparr>ins_campusId = 2, ins_programType = ''talk'',
      ins_dateTime = JString ''2024-03-10T17:00:00.000Z'',
      ins_endDateTime = Unset, ins_participantCount = Unset, ins_rating = Unset\<rparr>"

section \<open>Properties\<close>

subsection \<open>Auxiliary facts\<close>

lemma index0_take: "index0 (take (Suc n) ys) = index0 ys"
  by (cases ys) (simp_all add: index0_def)

lemma index0_filter_None: "index0 (filter P xs) = None \<longleftrightarrow> (\<forall>x\<in>set xs. \<not> P x)"
  by (cases "filter P xs") (simp_all add: index0_def filter_empty_conv [symmetric])

lemma index0_filter_Some: "index0 (filter P xs) = Some x \<Longrightarrow> x \<in> set xs \<and> P x"
proof -
  assume "index0 (filter P xs) = Some x"
  then have "x \<in> set (filter P xs)"
    by (cases "filter P xs") (simp_all add: index0_def)
  then show ?thesis by simp
qed



lemma getUser_first: "fst (getUser i s) = index0 (filter (\<lambda>u. user_id u = i) (users s))"
  by (simp add: getUser_def select_from_def unordered_def index0_take)

lemma getUserByEmail_first:
  "fst (getUserByEmail em s) = index0 (filter (\<lambda>u. email u = em) (users s))"
  by (simp add: getUserByEmail_def select_from_def unordered_def index0_take)

lemma getCampus_first:
  "fst (getCampus i s) = index0 (filter (\<lambda>c. campus_id c = i) (campuses s))"
  by (simp add: getCampus_def select_from_def unordered_def index0_take)

lemma getEvent_first: "fst (getEvent i s) = index0 (filter (\<lambda>e. event_id e = i) (events s))"
  by (simp add: getEvent_def select_from_def unordered_def index0_take)

lemma sorted_take_ge_drop:
  "sorted (rev (map f xs)) \<Longrightarrow> a \<in> set (take n xs) \<Longrightarrow> b \<in> set (drop n xs) \<Longrightarrow> f b \<le> f a"
proof -
  assume s: "sorted (rev (map f xs))" and a: "a \<in> set (take n xs)" and b: "b \<in> set (drop n xs)"
  from s have "sorted (rev (map f (take n xs @ drop n xs)))"
    by (simp only: append_take_drop_id)
  then have "\<forall>x\<in>set (drop n xs). \<forall>y\<in>set (take n xs). f x \<le> f y"
    by (simp add: sorted_append del: append_take_drop_id)
  then show ?thesis using a b by blast
qed

lemma or_zero_simp: "or_zero x = (case x of None \<Rightarrow> 0 | Some n \<Rightarrow> n)"
  by (simp add: or_zero_def split: option.splits)

lemma obj_get_map_of: "obj_get acc k = map_of acc k"
  by (induction acc) auto

lemma obj_get_set: "obj_get (obj_set acc k v) k' = (if k' = k then Some v else obj_get acc k')"
  by (induction acc) auto

lemma obj_get_None: "obj_get acc k = None \<longleftrightarrow> k \<notin> set (map fst acc)"
  by (simp add: obj_get_map_of map_of_eq_None_iff)

lemma keys_obj_set: "set (map fst (obj_set acc k v)) = insert k (set (map fst acc))"
proof (rule set_eqI)
  fix k'
  have "k' \<in> set (map fst (obj_set acc k v)) \<longleftrightarrow> obj_get (obj_set acc k v) k' \<noteq> None"
    by (simp only: obj_get_None simp_thms)
  also have "\<dots> \<longleftrightarrow> k' = k \<or> obj_get acc k' \<noteq> None"
    by (simp add: obj_get_set)
  also have "\<dots> \<longleftrightarrow> k' \<in> insert k (set (map fst acc))"
    by (simp only: obj_get_None simp_thms insert_iff)
  finally show "k' \<in> set (map fst (obj_set acc k v)) \<longleftrightarrow> k' \<in> insert k (set (map fst acc))" .
qed

lemma distinct_obj_set: "distinct (map fst acc) \<Longrightarrow> distinct (map fst (obj_set acc k v))"
proof (induction acc)
  case Nil
  then show ?case by simp
next
  case (Cons a acc)
  obtain k' v' where a: "a = (k', v')" by (cases a)
  show ?case
  proof (cases "k' = k")
    case True
    with Cons.prems a show ?thesis by simp
  next
    case False
    have "k' \<notin> set (map fst (obj_set acc k v))"
      using Cons.prems a False by (simp only: keys_obj_set) simp
    with Cons a False show ?thesis by simp
  qed
qed

lemma distinct_add_month: "distinct (map fst acc) \<Longrightarrow> distinct (map fst (add_month rt acc ev))"
  by (simp add: add_month_def Let_def distinct_obj_set)

lemma distinct_foldl_add_month:
  "distinct (map fst acc) \<Longrightarrow> distinct (map fst (foldl (add_month rt) acc evs))"
  by (induction evs arbitrary: acc) (simp_all add: distinct_add_month)

lemma obj_get_add_month:
  "obj_get (add_month rt acc ev) m =
     (if m = month_of rt (fst ev) then Some (or_zero (obj_get acc m) + or_zero (snd ev))
      else obj_get acc m)"
  by (simp add: add_month_def Let_def obj_get_set)

lemma obj_get_foldl_add_month:
  "obj_get (foldl (add_month rt) acc evs) m =
     (if m \<in> set (map fst acc) \<or> (\<exists>ev\<in>set evs. month_of rt (fst ev) = m)
      then Some (or_zero (obj_get acc m) +
                 (\<Sum>ev\<leftarrow>filter (\<lambda>ev. month_of rt (fst ev) = m) evs. or_zero (snd ev)))
      else None)"
proof (induction evs arbitrary: acc)
  case Nil
  show ?case
    using obj_get_None [of acc m]
    by (cases "obj_get acc m") (simp_all add: or_zero_simp)
next
  case (Cons ev evs)
  have keys: "set (map fst (add_month rt acc ev)) = insert (month_of rt (fst ev)) (set (map fst acc))"
    by (simp only: add_month_def Let_def keys_obj_set)
  have "obj_get (foldl (add_month rt) acc (ev # evs)) m =
          obj_get (foldl (add_month rt) (add_month rt acc ev) evs) m"
    by simp
  also have "\<dots> =
     (if m \<in> set (map fst (add_month rt acc ev)) \<or> (\<exists>ev\<in>set evs. month_of rt (fst ev) = m)
      then Some (or_zero (obj_get (add_month rt acc ev) m) +
                 (\<Sum>ev\<leftarrow>filter (\<lambda>ev. month_of rt (fst ev) = m) evs. or_zero (snd ev)))
      else None)"
    by (rule Cons.IH)
  also have "\<dots> =
     (if m \<in> set (map fst acc) \<or> (\<exists>ev\<in>set (ev # evs). month_of rt (fst ev) = m)
      then Some (or_zero (obj_get acc m) +
                 (\<Sum>ev\<leftarrow>filter (\<lambda>ev. month_of rt (fst ev) = m) (ev # evs). or_zero (snd ev)))
      else None)"
    unfolding keys obj_get_add_month
    by (cases "m = month_of rt (fst ev)") (auto simp add: or_zero_simp)
  finally show ?case .
qed

lemma year_of_valid: "year_of rt t = Some (getFullYear rt t)"
  by (simp add: year_of_def new_Date_def)

lemma month_of_valid: "month_of rt t = toLocaleMonth rt t"
  by (simp add: month_of_def new_Date_def)

lemma sum_filter_map:
  "(\<Sum>x\<leftarrow>filter P (map f xs). g x) = (\<Sum>x\<leftarrow>filter (\<lambda>x. P (f x)) xs. g (f x))"
  by (induction xs) simp_all



text \<open>Facts about the example runtime, by evaluation.\<close>

lemma march_2024:
  "getFullYear utc_english 1710061200000 = 2024"
  "getFullYear utc_english 1710072000000 = 2024"
  "getFullYear utc_english 1710082800000 = 2024"
  "toLocaleMonth utc_english 1710061200000 = ''March''"
  "toLocaleMonth utc_english 1710072000000 = ''March''"
  "toLocaleMonth utc_english 1710082800000 = ''March''"
  by code_simp+

text \<open>The definitions that the examples unfold.\<close>

lemmas ex_defs = store0_def morning_def noon_def afternoon_def new_years_eve_def chat_def

lemmas write_defs = insert_events_def update_events_def date_column_def date_required_def
  column_value_def assign_def assign_nullable_def no_values_def new_Date_def truthy_def
  index0_def keyed_schema_def utc_english_def Let_def

subsection \<open>The claims\<close>




text \<open>
  C2. \<open>getMonthlyParticipation\<close> returns one entry per month name, and an entry
  \<open>(m, p)\<close> exactly when some event of the campus with local year \<open>year\<close> has the long
  month name \<open>m\<close>, with \<open>p\<close> the sum of the participant counts of those events, a
  null count taken as zero.  A month without such an event has no entry.
\<close>

theorem monthly_participation_sums:
  "distinct (map fst (fst (getMonthlyParticipation rt cid year s))) \<and>
   (\<forall>m p. (m, p) \<in> set (fst (getMonthlyParticipation rt cid year s)) \<longleftrightarrow>
      (\<exists>e\<in>set (events s). campusId e = cid \<and> getFullYear rt (dateTime e) = year \<and>
          toLocaleMonth rt (dateTime e) = m) \<and>
      p = (\<Sum>e\<leftarrow>filter (\<lambda>e. campusId e = cid \<and> getFullYear rt (dateTime e) = year \<and>
                            toLocaleMonth rt (dateTime e) = m) (events s).
             case participantCount e of None \<Rightarrow> 0 | Some n \<Rightarrow> n))"
proof -
  let ?evs = "filter (\<lambda>ev. year_of rt (fst ev) = Some year)
                (map (\<lambda>e. (dateTime e, participantCount e)) (filter (\<lambda>e. campusId e = cid) (events s)))"
  let ?r = "foldl (add_month rt) [] ?evs"
  have r: "fst (getMonthlyParticipation rt cid year s) = ?r"
    by (simp add: getMonthlyParticipation_def select_from_def unordered_def)
  have d: "distinct (map fst ?r)"
    by (rule distinct_foldl_add_month) simp
  have ex: "(\<exists>ev\<in>set ?evs. month_of rt (fst ev) = m) \<longleftrightarrow>
            (\<exists>e\<in>set (events s). campusId e = cid \<and> getFullYear rt (dateTime e) = year \<and>
               toLocaleMonth rt (dateTime e) = m)" for m
    by (auto simp add: year_of_valid month_of_valid)
  have sm: "(\<Sum>ev\<leftarrow>filter (\<lambda>ev. month_of rt (fst ev) = m) ?evs. or_zero (snd ev)) =
            (\<Sum>e\<leftarrow>filter (\<lambda>e. campusId e = cid \<and> getFullYear rt (dateTime e) = year \<and>
                            toLocaleMonth rt (dateTime e) = m) (events s).
               case participantCount e of None \<Rightarrow> 0 | Some n \<Rightarrow> n)" for m
    by (simp add: sum_filter_map filter_map comp_def year_of_valid month_of_valid or_zero_simp
        conj_commute conj_left_commute)
  have "(m, p) \<in> set ?r \<longleftrightarrow> obj_get ?r m = Some p" for m p
    using d by (simp add: obj_get_map_of)
  then have mem: "(m, p) \<in> set ?r \<longleftrightarrow>
      (\<exists>e\<in>set (events s). campusId e = cid \<and> getFullYear rt (dateTime e) = year \<and>
          toLocaleMonth rt (dateTime e) = m) \<and>
      p = (\<Sum>e\<leftarrow>filter (\<lambda>e. campusId e = cid \<and> getFullYear rt (dateTime e) = year \<and>
                            toLocaleMonth rt (dateTime e) = m) (events s).
             case participantCount e of None \<Rightarrow> 0 | Some n \<Rightarrow> n)" for m p
    by (simp only: obj_get_foldl_add_month ex sm) (auto simp add: or_zero_simp)
  show ?thesis
    unfolding r using d mem by blast
qed

text \<open>
  On the example store: the three events of campus 1 in March 2024, with counts 10, 5 and
  null, give the single entry for March with 15 participants.
\<close>

theorem monthly_participation_sums_witness:
  "fst (getMonthlyParticipation utc_english 1 2024 store0) = [(''March'', 15)] \<and>
   (''March'', 15) \<in> set (fst (getMonthlyParticipation utc_english 1 2024 store0)) \<and>
   (''April'', 0) \<notin> set (fst (getMonthlyParticipation utc_english 1 2024 store0))"
proof -
  have "fst (getMonthlyParticipation utc_english 1 2024 store0) = [(''March'', 15)]"
    by (simp add: getMonthlyParticipation_def select_from_def unordered_def year_of_valid
        month_of_valid add_month_def or_zero_def march_2024 ex_defs)
  moreover have "(''March'', 15) \<in> set (fst (getMonthlyParticipation utc_english 1 2024 store0)) \<and>
   (''April'', 0) \<notin> set (fst (getMonthlyParticipation utc_english 1 2024 store0))"
    using monthly_participation_sums [of utc_english 1 2024 store0]
    by (simp add: march_2024 ex_defs)
  ultimately show ?thesis by blast
qed

text \<open>
  C3. \<open>getEventsInDateRange\<close> returns exactly the events of the campus whose
  \<open>dateTime\<close> lies between the two bounds, both included, each as often as the table
  holds it, in ascending order of \<open>dateTime\<close>.  This holds for all bounds, so for the
  well-formed ones with start no later than end.
\<close>

theorem date_range_exact_sorted:
  "mset (fst (getEventsInDateRange cid startDate endDate s)) =
     mset (filter (\<lambda>e. campusId e = cid \<and> startDate \<le> dateTime e \<and> dateTime e \<le> endDate) (events s)) \<and>
   sorted (map dateTime (fst (getEventsInDateRange cid startDate endDate s)))"
  by (simp add: getEventsInDateRange_def select_from_def asc_def)

text \<open>
  On the example store: of the events at 09:00, 12:00 and 15:00 the range from 10:00 to
  15:00 holds the last two, in that order.
\<close>

theorem date_range_exact_sorted_witness:
  "mset (fst (getEventsInDateRange 1 1710064800000 1710082800000 store0)) = {#noon, afternoon#} \<and>
   sorted (map dateTime (fst (getEventsInDateRange 1 1710064800000 1710082800000 store0))) \<and>
   fst (getEventsInDateRange 1 1710064800000 1710082800000 store0) = [noon, afternoon]"
proof -
  have "fst (getEventsInDateRange 1 1710064800000 1710082800000 store0) = [noon, afternoon]"
    by (simp add: getEventsInDateRange_def select_from_def asc_def ex_defs)
  moreover have "mset (filter (\<lambda>e. campusId e = 1 \<and> 1710064800000 \<le> dateTime e \<and>
      dateTime e \<le> 1710082800000) (events store0)) = {#noon, afternoon#}"
    by (simp add: ex_defs)
  ultimately show ?thesis
    using date_range_exact_sorted [of 1 1710064800000 1710082800000 store0] by simp
qed

text \<open>
  C4. \<open>deleteEvent\<close> returns true exactly when a row has the key; afterwards no row has
  it, the other rows and tables are as before, and a second call with the same key returns
  false.  With no row of that key the call returns false and changes nothing.
\<close>

theorem deleteEvent_once:
  "(fst (deleteEvent i s) \<longleftrightarrow> (\<exists>e\<in>set (events s). event_id e = i)) \<and>
   events (snd (deleteEvent i s)) = filter (\<lambda>e. event_id e \<noteq> i) (events s) \<and>
   \<not> fst (deleteEvent i (snd (deleteEvent i s))) \<and>
   ((\<forall>e\<in>set (events s). event_id e \<noteq> i) \<longrightarrow> \<not> fst (deleteEvent i s) \<and> snd (deleteEvent i s) = s) \<and>
   users (snd (deleteEvent i s)) = users s \<and>
   campuses (snd (deleteEvent i s)) = campuses s \<and>
   chatSessions (snd (deleteEvent i s)) = chatSessions s"
proof -
  have gone: "filter (\<lambda>e. event_id e = i) (filter (\<lambda>e. event_id e \<noteq> i) xs) = []" for xs :: "event list"
    by (induction xs) simp_all
  have keep: "(\<forall>e\<in>set xs. event_id e \<noteq> i) \<Longrightarrow> filter (\<lambda>e. event_id e \<noteq> i) xs = xs" for xs :: "event list"
    by (induction xs) simp_all
  show ?thesis
    by (auto simp add: deleteEvent_def delete_events_def gone keep filter_empty_conv)
qed

text \<open>On the example store: deleting event 2 twice, and deleting a key no row has.\<close>

theorem deleteEvent_once_witness:
  "fst (deleteEvent 2 store0) \<and> \<not> fst (deleteEvent 2 (snd (deleteEvent 2 store0))) \<and>
   \<not> fst (deleteEvent 9 store0) \<and> snd (deleteEvent 9 store0) = store0 \<and>
   events (snd (deleteEvent 2 store0)) = [new_years_eve, afternoon, morning]"
  using deleteEvent_once [of 2 store0] deleteEvent_once [of 9 store0]
  by (simp add: ex_defs)

text \<open>
  C5. After a \<open>createCampus\<close> that the store accepts, \<open>getAllCampuses\<close> returns the
  rows there were and the created campus, and what it returns is sorted ascending by name
  in the store's collation.
\<close>

theorem createCampus_listed_sorted:
  assumes "createCampus sch campusData s = Inr (r, s')"
  shows "\<exists>c. r = Some c \<and> name c = ins_name campusData \<and>
           c \<in> set (fst (getAllCampuses collate s')) \<and>
           mset (fst (getAllCampuses collate s')) = mset (campuses s) + {#c#} \<and>
           sorted (map (\<lambda>c. collate (name c)) (fst (getAllCampuses collate s')))"
  using assms
  by (auto simp add: createCampus_def insert_campuses_def getAllCampuses_def select_from_def
      asc_def index0_def Let_def split: if_splits)

text \<open>On the example store: a third campus, listed between the two there were.\<close>

theorem createCampus_listed_sorted_witness:
  "createCampus keyed_schema \<lparr>ins_name = ''Harbour''\<rparr> store0 =
     Inr (Some \<lparr>campus_id = 3, name = ''Harbour''\<rparr>,
          store0\<lparr>campuses := campuses store0 @ [\<lparr>campus_id = 3, name = ''Harbour''\<rparr>],
                 next_campus_id := 4\<rparr>) \<and>
   fst (getAllCampuses byte_order
          (store0\<lparr>campuses := campuses store0 @ [\<lparr>campus_id = 3, name = ''Harbour''\<rparr>],
                  next_campus_id := 4\<rparr>)) =
     [\<lparr>campus_id = 2, name = ''East''\<rparr>, \<lparr>campus_id = 3, name = ''Harbour''\<rparr>,
      \<lparr>campus_id = 1, name = ''North''\<rparr>] \<and>
   sorted (map (\<lambda>c. byte_order (name c))
     (fst (getAllCampuses byte_order
          (store0\<lparr>campuses := campuses store0 @ [\<lparr>campus_id = 3, name = ''Harbour''\<rparr>],
                  next_campus_id := 4\<rparr>))))"
proof -
  let ?s' = "store0\<lparr>campuses := campuses store0 @ [\<lparr>campus_id = 3, name = ''Harbour''\<rparr>],
                 next_campus_id := 4\<rparr>"
  have created: "createCampus keyed_schema \<lparr>ins_name = ''Harbour''\<rparr> store0 =
     Inr (Some \<lparr>campus_id = 3, name = ''Harbour''\<rparr>, ?s')"
    by (simp add: createCampus_def insert_campuses_def keyed_schema_def index0_def Let_def ex_defs)
  have listed: "fst (getAllCampuses byte_order ?s') =
     [\<lparr>campus_id = 2, name = ''East''\<rparr>, \<lparr>campus_id = 3, name = ''Harbour''\<rparr>,
      \<lparr>campus_id = 1, name = ''North''\<rparr>]"
    by (simp add: getAllCampuses_def select_from_def asc_def byte_order_def ex_defs)
  from createCampus_listed_sorted [OF created, of byte_order]
  have "sorted (map (\<lambda>c. byte_order (name c)) (fst (getAllCampuses byte_order ?s')))"
    by blast
  with created listed show ?thesis by blast
qed

text \<open>
  C6. \<open>getChatHistory\<close> with no limit behaves as with limit 10.  With limit \<open>n\<close> it
  returns \<open>n\<close> sessions of the user, or all of them when there are fewer, newest first,
  and no session left out is more recent than one returned.
\<close>

theorem chat_history_newest_first:
  "fst (getChatHistory uid None s) = fst (getChatHistory uid (Some 10) s) \<and>
   length (fst (getChatHistory uid (Some n) s)) =
     min n (length (filter (\<lambda>c. userId c = uid) (chatSessions s))) \<and>
   sorted (rev (map createdAt (fst (getChatHistory uid (Some n) s)))) \<and>
   mset (fst (getChatHistory uid (Some n) s)) \<subseteq>#
     mset (filter (\<lambda>c. userId c = uid) (chatSessions s)) \<and>
   (\<forall>a\<in>set (fst (getChatHistory uid (Some n) s)).
      \<forall>b\<in>#(mset (filter (\<lambda>c. userId c = uid) (chatSessions s)) -
              mset (fst (getChatHistory uid (Some n) s))).
        createdAt b \<le> createdAt a)"
proof -
  let ?all = "filter (\<lambda>c. userId c = uid) (chatSessions s)"
  let ?ord = "rev (sort_key createdAt ?all)"
  have r: "fst (getChatHistory uid (Some n) s) = take n ?ord"
    by (simp add: getChatHistory_def select_from_def desc_def)
  have d: "fst (getChatHistory uid None s) = fst (getChatHistory uid (Some 10) s)"
    by (simp add: getChatHistory_def)
  have so: "sorted (rev (map createdAt ?ord))"
    by (simp add: rev_map [symmetric])
  have "mset (take n ?ord @ drop n ?ord) = mset ?ord"
    by (simp only: append_take_drop_id)
  then have m: "mset ?all = mset (take n ?ord) + mset (drop n ?ord)"
    by (simp only: mset_append mset_rev mset_sort)
  from so have "sorted (rev (map createdAt (take n ?ord @ drop n ?ord)))"
    by (simp only: append_take_drop_id)
  then have st: "sorted (rev (map createdAt (take n ?ord)))"
    by (simp add: sorted_append del: append_take_drop_id)
  have rest: "mset ?all - mset (take n ?ord) = mset (drop n ?ord)"
    by (simp only: m add_diff_cancel_left')
  have sub: "mset (take n ?ord) \<subseteq># mset ?all"
    by (simp only: m mset_subset_eq_add_left)
  have len: "length (take n ?ord) = min n (length ?all)"
    by (simp add: min.commute)
  have newest: "\<forall>a\<in>set (take n ?ord). \<forall>b\<in>#(mset ?all - mset (take n ?ord)). createdAt b \<le> createdAt a"
    unfolding rest using sorted_take_ge_drop [OF so] by (simp only: set_mset_mset) blast
  show ?thesis
    using d len st sub newest by (simp only: r)
qed

text \<open>
  On the example store: of the five sessions of user 1 the limit 2 leaves the two created
  last, and no limit leaves all five.
\<close>

theorem chat_history_newest_first_witness:
  "fst (getChatHistory 1 (Some 2) store0) = [chat 4 1 500, chat 6 1 400] \<and>
   length (fst (getChatHistory 1 (Some 2) store0)) = 2 \<and>
   length (fst (getChatHistory 1 None store0)) = 5 \<and>
   sorted (rev (map createdAt (fst (getChatHistory 1 (Some 2) store0))))"
proof -
  have two: "fst (getChatHistory 1 (Some 2) store0) = [chat 4 1 500, chat 6 1 400]"
    by (simp add: getChatHistory_def select_from_def desc_def ex_defs)
  have five: "length (filter (\<lambda>c. userId c = 1) (chatSessions store0)) = 5"
    by (simp add: ex_defs)
  from chat_history_newest_first [of 1 store0 2] chat_history_newest_first [of 1 store0 10]
  show ?thesis
    by (simp only: two five) simp
qed

text \<open>
  C7. The lookups by key, \<open>getUser\<close>, \<open>getUserByEmail\<close>, \<open>getCampus\<close> and
  \<open>getEvent\<close>, return the absent marker exactly when no row matches, as a value and not
  as an error (the result type has no error), and a row of the table that matches
  otherwise.
\<close>

theorem lookups_absent_or_row:
  "(fst (getUser i s) = None \<longleftrightarrow> (\<forall>u\<in>set (users s). user_id u \<noteq> i)) \<and>
   (\<forall>u. fst (getUser i s) = Some u \<longrightarrow> u \<in> set (users s) \<and> user_id u = i) \<and>
   (fst (getUserByEmail em s) = None \<longleftrightarrow> (\<forall>u\<in>set (users s). email u \<noteq> em)) \<and>
   (\<forall>u. fst (getUserByEmail em s) = Some u \<longrightarrow> u \<in> set (users s) \<and> email u = em) \<and>
   (fst (getCampus j s) = None \<longleftrightarrow> (\<forall>c\<in>set (campuses s). campus_id c \<noteq> j)) \<and>
   (\<forall>c. fst (getCampus j s) = Some c \<longrightarrow> c \<in> set (campuses s) \<and> campus_id c = j) \<and>
   (fst (getEvent k s) = None \<longleftrightarrow> (\<forall>e\<in>set (events s). event_id e \<noteq> k)) \<and>
   (\<forall>e. fst (getEvent k s) = Some e \<longrightarrow> e \<in> set (events s) \<and> event_id e = k)"
proof (intro conjI allI impI)
  show "fst (getUser i s) = None \<longleftrightarrow> (\<forall>u\<in>set (users s). user_id u \<noteq> i)"
    by (simp only: getUser_first index0_filter_None)
  show "fst (getUserByEmail em s) = None \<longleftrightarrow> (\<forall>u\<in>set (users s). email u \<noteq> em)"
    by (simp only: getUserByEmail_first index0_filter_None)
  show "fst (getCampus j s) = None \<longleftrightarrow> (\<forall>c\<in>set (campuses s). campus_id c \<noteq> j)"
    by (simp only: getCampus_first index0_filter_None)
  show "fst (getEvent k s) = None \<longleftrightarrow> (\<forall>e\<in>set (events s). event_id e \<noteq> k)"
    by (simp only: getEvent_first index0_filter_None)
next
  fix u assume "fst (getUser i s) = Some u"
  then have "u \<in> set (users s) \<and> user_id u = i"
    unfolding getUser_first by (rule index0_filter_Some)
  then show "u \<in> set (users s)" and "user_id u = i" by simp_all
next
  fix u assume "fst (getUserByEmail em s) = Some u"
  then have "u \<in> set (users s) \<and> email u = em"
    unfolding getUserByEmail_first by (rule index0_filter_Some)
  then show "u \<in> set (users s)" and "email u = em" by simp_all
next
  fix c assume "fst (getCampus j s) = Some c"
  then have "c \<in> set (campuses s) \<and> campus_id c = j"
    unfolding getCampus_first by (rule index0_filter_Some)
  then show "c \<in> set (campuses s)" and "campus_id c = j" by simp_all
next
  fix e assume "fst (getEvent k s) = Some e"
  then have "e \<in> set (events s) \<and> event_id e = k"
    unfolding getEvent_first by (rule index0_filter_Some)
  then show "e \<in> set (events s)" and "event_id e = k" by simp_all
qed

text \<open>On the example store: keys and an address no row has, and ones a row has.\<close>

theorem lookups_absent_or_row_witness:
  "fst (getUser 9 store0) = None \<and> fst (getUserByEmail ''cy@example.org'' store0) = None \<and>
   fst (getCampus 9 store0) = None \<and> fst (getEvent 9 store0) = None \<and>
   fst (getUser 2 store0) \<noteq> None \<and> fst (getUserByEmail ''ada@example.org'' store0) \<noteq> None \<and>
   fst (getCampus 1 store0) \<noteq> None \<and> fst (getEvent 3 store0) \<noteq> None"
  using lookups_absent_or_row [of 9 store0 "''cy@example.org''" 9 9]
    lookups_absent_or_row [of 2 store0 "''ada@example.org''" 1 3]
  by (simp add: ex_defs)

text \<open>
  C8, as amended.  \<open>createEvent\<close> coerces \<open>dateTime\<close> by \<open>new Date\<close>, and
  \<open>endDateTime\<close> when the input gives it a truthy value; for an \<open>endDateTime\<close> that
  is left out, null or otherwise falsy it writes an explicit null, whatever the default of
  the column.  When the dates it coerces are valid and the store accepts the row, the call
  appends exactly that row and returns it; a call that succeeds has done so.  The call
  fails with an invalid date exactly when a date it coerces is invalid.
\<close>

theorem createEvent_coerces_dates:
  "(\<forall>r s'. createEvent rt sch eventData s = Inr (r, s') \<longrightarrow>
      (\<exists>e. r = Some e \<and> events s' = events s @ [e] \<and>
         new_Date rt (ins_dateTime eventData) = Some (dateTime e) \<and>
         (case ins_endDateTime eventData of
            Val x \<Rightarrow> (if truthy x then new_Date rt x = endDateTime e \<and> endDateTime e \<noteq> None
                      else endDateTime e = None)
          | Null \<Rightarrow> endDateTime e = None
          | Unset \<Rightarrow> endDateTime e = None))) \<and>
   (\<forall>t en.
      new_Date rt (ins_dateTime eventData) = Some t \<and>
      (case ins_endDateTime eventData of
         Val x \<Rightarrow> (if truthy x then new_Date rt x = en \<and> en \<noteq> None else en = None)
       | Null \<Rightarrow> en = None
       | Unset \<Rightarrow> en = None) \<and>
      constraints sch
        (s\<lparr>events := events s @
             [\<lparr>event_id = next_event_id s, campusId = ins_campusId eventData,
               programType = ins_programType eventData, dateTime = t, endDateTime = en,
               participantCount =
                 column_value (default_participantCount sch) (ins_participantCount eventData),
               rating = column_value (default_rating sch) (ins_rating eventData)\<rparr>],
           next_event_id := next_event_id s + 1\<rparr>) \<longrightarrow>
      createEvent rt sch eventData s =
        Inr (Some \<lparr>event_id = next_event_id s, campusId = ins_campusId eventData,
                    programType = ins_programType eventData, dateTime = t, endDateTime = en,
                    participantCount =
                      column_value (default_participantCount sch) (ins_participantCount eventData),
                    rating = column_value (default_rating sch) (ins_rating eventData)\<rparr>,
             s\<lparr>events := events s @
                  [\<lparr>event_id = next_event_id s, campusId = ins_campusId eventData,
                    programType = ins_programType eventData, dateTime = t, endDateTime = en,
                    participantCount =
                      column_value (default_participantCount sch) (ins_participantCount eventData),
                    rating = column_value (default_rating sch) (ins_rating eventData)\<rparr>],
                next_event_id := next_event_id s + 1\<rparr>)) \<and>
   (createEvent rt sch eventData s = Inl InvalidDate \<longleftrightarrow>
      new_Date rt (ins_dateTime eventData) = None \<or>
      (\<exists>x. ins_endDateTime eventData = Val x \<and> truthy x \<and> new_Date rt x = None)) \<and>
   createEvent rt sch eventData s \<noteq> Inl NoValuesToSet"
proof (intro conjI)
  show "\<forall>r s'. createEvent rt sch eventData s = Inr (r, s') \<longrightarrow>
      (\<exists>e. r = Some e \<and> events s' = events s @ [e] \<and>
         new_Date rt (ins_dateTime eventData) = Some (dateTime e) \<and>
         (case ins_endDateTime eventData of
            Val x \<Rightarrow> (if truthy x then new_Date rt x = endDateTime e \<and> endDateTime e \<noteq> None
                      else endDateTime e = None)
          | Null \<Rightarrow> endDateTime e = None
          | Unset \<Rightarrow> endDateTime e = None))"
    by (cases "ins_endDateTime eventData"; cases "new_Date rt (ins_dateTime eventData)")
      (auto simp add: createEvent_def insert_events_def date_column_def column_value_def
        index0_def Let_def split: option.splits if_splits field.splits)
  show "createEvent rt sch eventData s = Inl InvalidDate \<longleftrightarrow>
      new_Date rt (ins_dateTime eventData) = None \<or>
      (\<exists>x. ins_endDateTime eventData = Val x \<and> truthy x \<and> new_Date rt x = None)"
    by (cases "ins_endDateTime eventData"; cases "new_Date rt (ins_dateTime eventData)")
      (auto simp add: createEvent_def insert_events_def date_column_def column_value_def
        index0_def Let_def split: option.splits if_splits field.splits)
  show "createEvent rt sch eventData s \<noteq> Inl NoValuesToSet"
    by (cases "ins_endDateTime eventData"; cases "new_Date rt (ins_dateTime eventData)")
      (auto simp add: createEvent_def insert_events_def date_column_def column_value_def
        index0_def Let_def split: option.splits if_splits field.splits)
  show "\<forall>t en.
      new_Date rt (ins_dateTime eventData) = Some t \<and>
      (case ins_endDateTime eventData of
         Val x \<Rightarrow> (if truthy x then new_Date rt x = en \<and> en \<noteq> None else en = None)
       | Null \<Rightarrow> en = None
       | Unset \<Rightarrow> en = None) \<and>
      constraints sch
        (s\<lparr>events := events s @
             [\<lparr>event_id = next_event_id s, campusId = ins_campusId eventData,
               programType = ins_programType eventData, dateTime = t, endDateTime = en,
               participantCount =
                 column_value (default_participantCount sch) (ins_participantCount eventData),
               rating = column_value (default_rating sch) (ins_rating eventData)\<rparr>],
           next_event_id := next_event_id s + 1\<rparr>) \<longrightarrow>
      createEvent rt sch eventData s =
        Inr (Some \<lparr>event_id = next_event_id s, campusId = ins_campusId eventData,
                    programType = ins_programType eventData, dateTime = t, endDateTime = en,
                    participantCount =
                      column_value (default_participantCount sch) (ins_participantCount eventData),
                    rating = column_value (default_rating sch) (ins_rating eventData)\<rparr>,
             s\<lparr>events := events s @
                  [\<lparr>event_id = next_event_id s, campusId = ins_campusId eventData,
                    programType = ins_programType eventData, dateTime = t, endDateTime = en,
                    participantCount =
                      column_value (default_participantCount sch) (ins_participantCount eventData),
                    rating = column_value (default_rating sch) (ins_rating eventData)\<rparr>],
                next_event_id := next_event_id s + 1\<rparr>)"
  proof -
    have cv: "column_value d Null = None" "column_value d (Val v) = Some v" for d :: "'a option" and v
      by (simp_all add: column_value_def)
    show ?thesis
      by (cases "ins_endDateTime eventData")
        (auto simp add: createEvent_def insert_events_def date_column_def index0_def Let_def cv
          split: if_splits)
  qed
qed

text \<open>
  On the example store: an event whose \<open>endDateTime\<close> is a date string, stored coerced;
  one with no \<open>endDateTime\<close>, stored with null; and one whose \<open>endDateTime\<close> does
  not parse, refused.
\<close>

theorem createEvent_coerces_dates_witness:
  "createEvent utc_english keyed_schema
     (evening_talk\<lparr>ins_endDateTime := Val (JString ''2024-04-02T08:30:00.000Z'')\<rparr>) store0 =
     Inr (Some \<lparr>event_id = 5, campusId = 2, programType = ''talk'',
                 dateTime = 1710090000000, endDateTime = Some 1712046600000,
                 participantCount = Some 0, rating = None\<rparr>,
          store0\<lparr>events := events store0 @
                   [\<lparr>event_id = 5, campusId = 2, programType = ''talk'',
                     dateTime = 1710090000000, endDateTime = Some 1712046600000,
                     participantCount = Some 0, rating = None\<rparr>],
                 next_event_id := 6\<rparr>) \<and>
   createEvent utc_english keyed_schema evening_talk store0 =
     Inr (Some \<lparr>event_id = 5, campusId = 2, programType = ''talk'',
                 dateTime = 1710090000000, endDateTime = None,
                 participantCount = Some 0, rating = None\<rparr>,
          store0\<lparr>events := events store0 @
                   [\<lparr>event_id = 5, campusId = 2, programType = ''talk'',
                     dateTime = 1710090000000, endDateTime = None,
                     participantCount = Some 0, rating = None\<rparr>],
                 next_event_id := 6\<rparr>) \<and>
   createEvent utc_english keyed_schema
     (evening_talk\<lparr>ins_endDateTime := Val (JString ''2024-03-10 late'')\<rparr>) store0 = Inl InvalidDate"
proof -
  note eval_defs = evening_talk_def new_Date_def truthy_def keyed_schema_def utc_english_def
    column_value_def ex_defs
  have stored: "createEvent utc_english keyed_schema
     (evening_talk\<lparr>ins_endDateTime := Val (JString ''2024-04-02T08:30:00.000Z'')\<rparr>) store0 =
     Inr (Some \<lparr>event_id = 5, campusId = 2, programType = ''talk'',
                 dateTime = 1710090000000, endDateTime = Some 1712046600000,
                 participantCount = Some 0, rating = None\<rparr>,
          store0\<lparr>events := events store0 @
                   [\<lparr>event_id = 5, campusId = 2, programType = ''talk'',
                     dateTime = 1710090000000, endDateTime = Some 1712046600000,
                     participantCount = Some 0, rating = None\<rparr>],
                 next_event_id := 6\<rparr>)"
    using createEvent_coerces_dates [of utc_english keyed_schema
        "evening_talk\<lparr>ins_endDateTime := Val (JString ''2024-04-02T08:30:00.000Z'')\<rparr>" store0,
        THEN conjunct2, THEN conjunct1, rule_format, of 1710090000000 "Some 1712046600000"]
    by (simp add: eval_defs)
  have absent: "createEvent utc_english keyed_schema evening_talk store0 =
     Inr (Some \<lparr>event_id = 5, campusId = 2, programType = ''talk'',
                 dateTime = 1710090000000, endDateTime = None,
                 participantCount = Some 0, rating = None\<rparr>,
          store0\<lparr>events := events store0 @
                   [\<lparr>event_id = 5, campusId = 2, programType = ''talk'',
                     dateTime = 1710090000000, endDateTime = None,
                     participantCount = Some 0, rating = None\<rparr>],
                 next_event_id := 6\<rparr>)"
    using createEvent_coerces_dates [of utc_english keyed_schema evening_talk store0,
        THEN conjunct2, THEN conjunct1, rule_format, of 1710090000000 None]
    by (simp add: eval_defs)
  have "new_Date utc_english (JString ''2024-03-10 late'') = None"
    by (simp add: new_Date_def utc_english_def)
  with createEvent_coerces_dates [of utc_english keyed_schema
      "evening_talk\<lparr>ins_endDateTime := Val (JString ''2024-03-10 late'')\<rparr>" store0]
  have "createEvent utc_english keyed_schema
     (evening_talk\<lparr>ins_endDateTime := Val (JString ''2024-03-10 late'')\<rparr>) store0 = Inl InvalidDate"
    by (simp add: truthy_def)
  with stored absent show ?thesis by blast
qed

text \<open>
  C8 as stated fails: an \<open>endDateTime\<close> that is present is not always coerced.  The
  number 0 is a valid date for \<open>new Date\<close>, yet as \<open>endDateTime\<close> it is stored as
  null.
\<close>

theorem createEvent_zero_endDateTime_counterexample:
  "new_Date utc_english (JNumber 0) = Some 0 \<and>
   createEvent utc_english keyed_schema (evening_talk\<lparr>ins_endDateTime := Val (JNumber 0)\<rparr>) store0 =
     Inr (Some \<lparr>event_id = 5, campusId = 2, programType = ''talk'',
                 dateTime = 1710090000000, endDateTime = None,
                 participantCount = Some 0, rating = None\<rparr>,
          store0\<lparr>events := events store0 @
                   [\<lparr>event_id = 5, campusId = 2, programType = ''talk'',
                     dateTime = 1710090000000, endDateTime = None,
                     participantCount = Some 0, rating = None\<rparr>],
                 next_event_id := 6\<rparr>)"
  by (simp add: createEvent_def evening_talk_def write_defs ex_defs)

text \<open>
  C9. Each of the eleven read operations leaves the store as it found it.
\<close>

theorem reads_leave_store:
  "snd (getUser i s) = s \<and> snd (getUserByEmail em s) = s \<and> snd (getCampus i s) = s \<and>
   snd (getAllCampuses collate s) = s \<and> snd (getEvent i s) = s \<and>
   snd (getEventsByCampus cid s) = s \<and> snd (getEventsInDateRange cid startDate endDate s) = s \<and>
   snd (getChatHistory uid limit1 s) = s \<and> snd (getEventTypeDistribution cid s) = s \<and>
   snd (getMonthlyParticipation rt cid year s) = s \<and> snd (getTopRatedEvents cid limit2 s) = s"
  by (simp add: getUser_def getUserByEmail_def getCampus_def getAllCampuses_def getEvent_def
      getEventsByCampus_def getEventsInDateRange_def getChatHistory_def
      getEventTypeDistribution_def getMonthlyParticipation_def getTopRatedEvents_def
      select_from_def)

text \<open>On the example store and runtime.\<close>

theorem reads_leave_store_witness:
  "snd (getUser 1 store0) = store0 \<and> snd (getAllCampuses byte_order store0) = store0 \<and>
   snd (getEventsByCampus 1 store0) = store0 \<and> snd (getChatHistory 1 None store0) = store0 \<and>
   snd (getEventTypeDistribution 1 store0) = store0 \<and>
   snd (getMonthlyParticipation utc_english 1 2024 store0) = store0 \<and>
   snd (getTopRatedEvents 1 (Some 2) store0) = store0"
  using reads_leave_store [of 1 store0 "[]" byte_order 1 0 0 1 None utc_english 2024 "Some 2"]
  by blast

text \<open>
  C10. When the input of \<open>createEvent\<close> carries an \<open>endDateTime\<close> that is falsy, the
  call does what it does for an explicit null: the value is never coerced, so it causes no
  failure, and the row stored has a null \<open>endDateTime\<close>.
\<close>

theorem createEvent_falsy_endDateTime:
  assumes "ins_endDateTime eventData = Val x" and "\<not> truthy x"
  shows "createEvent rt sch eventData s = createEvent rt sch (eventData\<lparr>ins_endDateTime := Null\<rparr>) s \<and>
    (\<forall>r s'. createEvent rt sch eventData s = Inr (r, s') \<longrightarrow> (\<exists>e. r = Some e \<and> endDateTime e = None)) \<and>
    (createEvent rt sch eventData s = Inl InvalidDate \<longleftrightarrow> new_Date rt (ins_dateTime eventData) = None)"
  using assms
  by (cases "new_Date rt (ins_dateTime eventData)")
    (auto simp add: createEvent_def insert_events_def date_column_def column_value_def
      index0_def Let_def split: option.splits if_splits field.splits)

text \<open>
  On the example store: the empty string, which is falsy and which \<open>Date.parse\<close>
  rejects, as \<open>endDateTime\<close>.
\<close>

theorem createEvent_falsy_endDateTime_witness:
  "\<not> truthy (JString []) \<and> new_Date utc_english (JString []) = None \<and>
   createEvent utc_english keyed_schema (evening_talk\<lparr>ins_endDateTime := Val (JString [])\<rparr>) store0 =
     createEvent utc_english keyed_schema (evening_talk\<lparr>ins_endDateTime := Null\<rparr>) store0 \<and>
   createEvent utc_english keyed_schema (evening_talk\<lparr>ins_endDateTime := Val (JString [])\<rparr>) store0 =
     Inr (Some \<lparr>event_id = 5, campusId = 2, programType = ''talk'',
                 dateTime = 1710090000000, endDateTime = None,
                 participantCount = Some 0, rating = None\<rparr>,
          store0\<lparr>events := events store0 @
                   [\<lparr>event_id = 5, campusId = 2, programType = ''talk'',
                     dateTime = 1710090000000, endDateTime = None,
                     participantCount = Some 0, rating = None\<rparr>],
                 next_event_id := 6\<rparr>)"
proof -
  have falsy: "\<not> truthy (JString [])"
    by (simp add: truthy_def)
  have unparsable: "new_Date utc_english (JString []) = None"
    by (simp add: new_Date_def utc_english_def)
  have given: "ins_endDateTime (evening_talk\<lparr>ins_endDateTime := Val (JString [])\<rparr>) = Val (JString [])"
    by simp
  have as_null: "createEvent utc_english keyed_schema (evening_talk\<lparr>ins_endDateTime := Null\<rparr>) store0 =
     Inr (Some \<lparr>event_id = 5, campusId = 2, programType = ''talk'',
                 dateTime = 1710090000000, endDateTime = None,
                 participantCount = Some 0, rating = None\<rparr>,
          store0\<lparr>events := events store0 @
                   [\<lparr>event_id = 5, campusId = 2, programType = ''talk'',
                     dateTime = 1710090000000, endDateTime = None,
                     participantCount = Some 0, rating = None\<rparr>],
                 next_event_id := 6\<rparr>)"
    by (simp add: createEvent_def evening_talk_def write_defs ex_defs)
  from createEvent_falsy_endDateTime [OF given falsy, of utc_english keyed_schema store0]
  have "createEvent utc_english keyed_schema (evening_talk\<lparr>ins_endDateTime := Val (JString [])\<rparr>) store0 =
     createEvent utc_english keyed_schema (evening_talk\<lparr>ins_endDateTime := Null\<rparr>) store0"
    by simp
  with falsy unparsable as_null show ?thesis by simp
qed

end
